theory Spec2Isabelle
  imports Main "HOL-Library.Multiset" "HOL-Library.AList" "HOL-Library.Sublist"
begin

section \<open>Python values and builtins used by the chat modules\<close>

text \<open>
  A Python \<open>str\<close> is modelled as a \<open>string\<close> whose characters are the code points
  0..255. Exceptions are values of the type \<open>error\<close>; a call that may raise returns
  \<open>error + 'a\<close>, with \<open>Inl\<close> for the raised exception. \<open>OtherError\<close> stands for any
  exception class the two modules never name in an \<open>except\<close> clause (an HTTP error
  of \<open>requests\<close>, a failure of the embedding backend, ...).
\<close>

datatype error =
    ValueError
  | TypeError
  | KeyError
  | FileNotFoundError
  | ClosedResourceError
  | OtherError

text \<open>The characters that \<open>str.strip()\<close> treats as white space.\<close>

definition is_space :: "char \<Rightarrow> bool" where
  "is_space c =
     (let n = (of_char c :: nat)
      in (9 \<le> n \<and> n \<le> 13) \<or> (28 \<le> n \<and> n \<le> 32) \<or> n = 133 \<or> n = 160)"

text \<open>\<open>s.strip()\<close>: white space removed at both ends.\<close>

definition py_strip :: "string \<Rightarrow> string" where
  "py_strip s = rev (dropWhile is_space (rev (dropWhile is_space s)))"

text \<open>\<open>str(n)\<close> for an integer: decimal digits, with a minus sign when negative.\<close>

definition digit_char :: "nat \<Rightarrow> char" where
  "digit_char d = char_of (48 + d)"

function str_nat :: "nat \<Rightarrow> string" where
  "str_nat n = (if n < 10 then [digit_char n] else str_nat (n div 10) @ [digit_char (n mod 10)])"
  by pat_completeness auto
termination
  by (relation "measure (\<lambda>n. n)") auto

declare str_nat.simps [simp del]

definition str_int :: "int \<Rightarrow> string" where
  "str_int i = (if i < 0 then CHR ''-'' # str_nat (nat (- i)) else str_nat (nat i))"

text \<open>
  \<open>int(s)\<close> for a string, base 10: white space is skipped at both ends, one sign is
  allowed, then come decimal digits, where a single underscore may stand between two
  digits. Anything else raises \<open>ValueError\<close>. The white space of \<open>int\<close> is narrower
  than that of \<open>str.strip()\<close>: tab to carriage return and the space, and the two
  non-ASCII spaces, which the conversion turns into spaces first; the separators
  0x1C to 0x1F are left in place and make the string invalid. (The interpreter's limit
  on the number of digits of a string, a configurable setting, is not modelled.)
\<close>

definition is_int_space :: "char \<Rightarrow> bool" where
  "is_int_space c =
     (let n = (of_char c :: nat)
      in (9 \<le> n \<and> n \<le> 13) \<or> n = 32 \<or> n = 133 \<or> n = 160)"

definition int_strip :: "string \<Rightarrow> string" where
  "int_strip s = rev (dropWhile is_int_space (rev (dropWhile is_int_space s)))"

definition digit_val :: "char \<Rightarrow> nat option" where
  "digit_val c =
     (let n = (of_char c :: nat) in if 48 \<le> n \<and> n \<le> 57 then Some (n - 48) else None)"

fun digits_from :: "nat \<Rightarrow> string \<Rightarrow> nat option" where
  "digits_from acc [] = Some acc"
| "digits_from acc [c] =
     (case digit_val c of None \<Rightarrow> None | Some v \<Rightarrow> Some (acc * 10 + v))"
| "digits_from acc (c # d # ds) =
     (if c = CHR ''_''
      then (case digit_val d of None \<Rightarrow> None | Some v \<Rightarrow> digits_from (acc * 10 + v) ds)
      else (case digit_val c of None \<Rightarrow> None | Some v \<Rightarrow> digits_from (acc * 10 + v) (d # ds)))"

definition parse_nat :: "string \<Rightarrow> nat option" where
  "parse_nat s =
     (case s of
        [] \<Rightarrow> None
      | c # cs \<Rightarrow> (case digit_val c of None \<Rightarrow> None | Some v \<Rightarrow> digits_from v cs))"

definition int_of_str :: "string \<Rightarrow> error + int" where
  "int_of_str s =
     (let t = int_strip s;
          (neg, body) = (case t of
                           c # cs \<Rightarrow> if c = CHR ''-'' then (True, cs)
                                     else if c = CHR ''+'' then (False, cs)
                                     else (False, t)
                         | [] \<Rightarrow> (False, t))
      in case parse_nat body of
           None \<Rightarrow> Inl ValueError
         | Some n \<Rightarrow> Inr (if neg then - int n else int n))"

text \<open>
  The dynamically typed values that occur as node metadata and as plain payload entries:
  \<open>None\<close>, booleans, integers and strings (floats are left out).
\<close>

datatype pyval = PyNone | PyBool bool | PyInt int | PyStr string

text \<open>\<open>int(v)\<close>: \<open>TypeError\<close> for \<open>None\<close>, \<open>ValueError\<close> for a string that is no numeral.\<close>

fun py_int :: "pyval \<Rightarrow> error + int" where
  "py_int PyNone = Inl TypeError"
| "py_int (PyBool b) = Inr (if b then 1 else 0)"
| "py_int (PyInt i) = Inr i"
| "py_int (PyStr s) = int_of_str s"

text \<open>\<open>str(v)\<close>.\<close>

fun py_str :: "pyval \<Rightarrow> string" where
  "py_str PyNone = ''None''"
| "py_str (PyBool b) = (if b then ''True'' else ''False'')"
| "py_str (PyInt i) = str_int i"
| "py_str (PyStr s) = s"

text \<open>
  A \<open>dict\<close> keeps its keys in insertion order, and assigning to a key that is present
  replaces the value in place: an association list updated with \<open>AList.update\<close>.
\<close>

type_synonym ('k, 'v) dict = "('k \<times> 'v) list"

definition dict_set :: "'k \<Rightarrow> 'v \<Rightarrow> ('k, 'v) dict \<Rightarrow> ('k, 'v) dict" where
  "dict_set k v d = AList.update k v d"

text \<open>\<open>dict(pairs)\<close>, also the dict comprehension: the pairs are stored from left to right.\<close>

definition dict_of :: "('k \<times> 'v) list \<Rightarrow> ('k, 'v) dict" where
  "dict_of kvs = fold (\<lambda>(k, v) d. dict_set k v d) kvs []"

text \<open>\<open>d[k]\<close> raises \<open>KeyError\<close> for a missing key.\<close>

definition dict_get :: "('k, 'v) dict \<Rightarrow> 'k \<Rightarrow> error + 'v" where
  "dict_get d k = (case map_of d k of None \<Rightarrow> Inl KeyError | Some v \<Rightarrow> Inr v)"

section \<open>engine.py: the data the engine reads\<close>

text \<open>
  \<open>SecDocumentMetadata\<close>, the value stored under the key
  \<open>DocumentMetadataKeysEnum.SEC_DOCUMENT\<close> of a document's metadata map.
  \<open>doc_type_value\<close> is \<open>doc_type.value\<close>.
\<close>

record sec_document_metadata =
  company_name :: string
  company_ticker :: string
  doc_type_value :: string
  year :: int
  quarter :: "int option"

text \<open>
  A document of the conversation. \<open>doc_id\<close> is \<open>str(document.id)\<close>, the canonical text
  of the document's UUID; \<open>sec_document\<close> is the entry of \<open>metadata_map\<close> under
  \<open>SEC_DOCUMENT\<close>, \<open>None\<close> when the key is absent.
\<close>

record document =
  doc_id :: string
  url :: string
  sec_document :: "sec_document_metadata option"

text \<open>
  Modelled from the spec: the enumerations \<open>MessageRoleEnum\<close> and
  \<open>MessageStatusEnum\<close> are declared in \<open>app.models.db\<close>, which is not among the
  sources; the spec gives a message the roles user/assistant and the statuses
  success/failure/pending.
\<close>

datatype message_role_enum = user | assistant

datatype message_status_enum = PENDING | SUCCESS | ERROR

text \<open>A message of the conversation; \<open>created_at\<close> is a point in time, totally ordered.\<close>

record message =
  content :: string
  role :: message_role_enum
  status :: message_status_enum
  created_at :: int

text \<open>The role and the chat message of the LLM library.\<close>

datatype message_role = SYSTEM | USER | ASSISTANT | FUNCTION | TOOL | CHATBOT | MODEL

record chat_message =
  cm_content :: string
  cm_role :: message_role

section \<open>engine.py: \<open>get_chat_history\<close>\<close>

text \<open>The condition of the list comprehension; a string is truthy when it is not empty.\<close>

definition keep_message :: "message \<Rightarrow> bool" where
  "keep_message m = (py_strip (content m) \<noteq> [] \<and> status m = SUCCESS)"

text \<open>The \<open>for\<close> loop appending one \<open>ChatMessage\<close> per message to \<open>chat_history\<close>.\<close>

fun append_chat_messages :: "message list \<Rightarrow> chat_message list \<Rightarrow> chat_message list" where
  "append_chat_messages [] chat_history = chat_history"
| "append_chat_messages (m # ms) chat_history =
     (let r = (if role m = assistant then ASSISTANT else USER)
      in append_chat_messages ms (chat_history @ [\<lparr>cm_content = content m, cm_role = r\<rparr>]))"

text \<open>\<open>sorted(..., key=...)\<close> is a stable sort, as \<open>sort_key\<close> is.\<close>

definition get_chat_history :: "message list \<Rightarrow> chat_message list" where
  "get_chat_history chat_messages =
     (let kept = filter keep_message chat_messages;
          ordered = sort_key created_at kept
      in append_chat_messages ordered [])"

section \<open>engine.py: the index map\<close>

text \<open>
  \<open>build_description_for_document\<close>. \<open>if sec_metadata.quarter\<close> is false for \<open>None\<close>
  and for 0.
\<close>

definition build_description_for_document :: "document \<Rightarrow> string" where
  "build_description_for_document document =
     (case sec_document document of
        Some sec_metadata \<Rightarrow>
          (let time_period =
                 (case quarter sec_metadata of
                    Some q \<Rightarrow> if q \<noteq> 0 then str_int (year sec_metadata) @ '' Q'' @ str_int q
                              else str_int (year sec_metadata)
                  | None \<Rightarrow> str_int (year sec_metadata))
           in ''A SEC '' @ doc_type_value sec_metadata
              @ '' filing describing the financials of '' @ company_name sec_metadata
              @ '' ('' @ company_ticker sec_metadata @ '') for the '' @ time_period
              @ '' time period.'')
      | None \<Rightarrow>
          ''A document containing useful information that the user pre-selected to discuss with the assistant.'')"

text \<open>What the engine keeps of the library's objects.\<close>

record llama_index_document =
  page_text :: string

record vector_store_index =
  index_id :: string

text \<open>
  The collaborators outside the two modules, each given by the outcome of its call:
  for a call whose value the module does not inspect, the exception it raises, if any.
  \<^item> \<open>get_s3_fs\<close>, \<open>get_vector_store_singleton\<close>, \<open>get_storage_context\<close>: the calls of
    these names (the storage context comes from a time-bounded cache);
  \<^item> \<open>create_storage_context\<close>: \<open>StorageContext.from_defaults(vector_store, fs)\<close> and
    its \<open>persist\<close>, in the handler of \<open>FileNotFoundError\<close>;
  \<^item> \<open>load_indices_from_storage\<close>: the library's loader, given the index ids;
  \<^item> \<open>reopen_storage_context\<close>: \<open>StorageContext.from_defaults(persist_dir, ...)\<close> in the
    handler of \<open>ValueError\<close>;
  \<^item> \<open>fetch_and_read_document\<close>: the download of the document's URL and the PDF reader;
  \<^item> \<open>from_documents\<close>: \<open>docstore.add_documents\<close> and \<open>VectorStoreIndex.from_documents\<close>;
  \<^item> \<open>persist\<close>: \<open>index.storage_context.persist\<close>;
  \<^item> \<open>api_tool_description\<close>: the description text of a quantitative tool;
  \<^item> \<open>uuid4\<close>: the text of the random UUID drawn for the first record;
  \<^item> \<open>astream_chat\<close>: the agent's answer to the templated message, see \<open>stream_event\<close>.
\<close>

text \<open>
  An item of the agent's answer as the streaming loop meets it: the next text fragment,
  or the closing of the output channel while the loop waits for one.
\<close>

datatype stream_event = Token string | ConsumerCloses

record collaborators =
  get_s3_fs :: "error option"
  get_vector_store_singleton :: "error option"
  get_storage_context :: "error option"
  create_storage_context :: "error option"
  load_indices_from_storage :: "string list \<Rightarrow> error + vector_store_index list"
  reopen_storage_context :: "error option"
  fetch_and_read_document :: "document \<Rightarrow> error + llama_index_document list"
  from_documents :: "llama_index_document list \<Rightarrow> error + vector_store_index"
  persist :: "vector_store_index \<Rightarrow> error option"
  api_tool_description :: "document \<Rightarrow> string"
  uuid4 :: string
  astream_chat :: "string \<Rightarrow> error + stream_event list"

text \<open>
  The body of the outer \<open>try\<close> of \<open>build_doc_id_to_index_map\<close>: the storage context
  (created afresh after \<open>FileNotFoundError\<close>), then the loader, then
  \<open>dict(zip(index_ids, indices))\<close>.
\<close>

definition load_doc_id_to_index ::
    "collaborators \<Rightarrow> document list \<Rightarrow> error + (string, vector_store_index) dict" where
  "load_doc_id_to_index w documents =
     (let raised = (case get_storage_context w of
                      None \<Rightarrow> None
                    | Some e \<Rightarrow> if e = FileNotFoundError then create_storage_context w
                                else Some e)
      in case raised of
           Some e \<Rightarrow> Inl e
         | None \<Rightarrow>
             (let index_ids = map doc_id documents
              in case load_indices_from_storage w index_ids of
                   Inl e \<Rightarrow> Inl e
                 | Inr indices \<Rightarrow> Inr (dict_of (zip index_ids indices))))"

text \<open>The \<open>for doc in documents\<close> loop of the handler of \<open>ValueError\<close>.\<close>

fun rebuild_doc_id_to_index ::
    "collaborators \<Rightarrow> document list \<Rightarrow> (string, vector_store_index) dict
      \<Rightarrow> error + (string, vector_store_index) dict" where
  "rebuild_doc_id_to_index w [] doc_id_to_index = Inr doc_id_to_index"
| "rebuild_doc_id_to_index w (doc # docs) doc_id_to_index =
     (case fetch_and_read_document w doc of
        Inl e \<Rightarrow> Inl e
      | Inr llama_index_docs \<Rightarrow>
          (case from_documents w llama_index_docs of
             Inl e \<Rightarrow> Inl e
           | Inr index \<Rightarrow>
               (let index' = index\<lparr>index_id := doc_id doc\<rparr>
                in case persist w index' of
                     Some e \<Rightarrow> Inl e
                   | None \<Rightarrow>
                       rebuild_doc_id_to_index w docs
                         (dict_set (doc_id doc) index' doc_id_to_index))))"

definition build_doc_id_to_index_map ::
    "collaborators \<Rightarrow> document list \<Rightarrow> error + (string, vector_store_index) dict" where
  "build_doc_id_to_index_map w documents =
     (case get_vector_store_singleton w of
        Some e \<Rightarrow> Inl e
      | None \<Rightarrow>
          (case load_doc_id_to_index w documents of
             Inr doc_id_to_index \<Rightarrow> Inr doc_id_to_index
           | Inl e \<Rightarrow>
               if e = ValueError
               then (case reopen_storage_context w of
                       Some e' \<Rightarrow> Inl e'
                     | None \<Rightarrow> rebuild_doc_id_to_index w documents [])
               else Inl e))"

section \<open>engine.py: the tools of \<open>get_chat_engine\<close>\<close>

text \<open>
  A query engine tool: the name and description of its \<open>ToolMetadata\<close>, and its query
  engine. A citation query engine is given by its index, the document id of its
  exact-match filter, \<open>similarity_top_k\<close> and \<open>citation_chunk_size\<close>.
\<close>

datatype query_engine =
    CitationQueryEngine vector_store_index string nat nat
  | ApiQueryEngine document

record query_engine_tool =
  tool_name :: string
  tool_description :: string
  tool_query_engine :: query_engine

text \<open>
  Modelled from the spec: \<open>get_api_query_engine_tool\<close> is defined in \<open>app.chat.tools\<close>,
  which is not among the sources. The spec has the quantitative tool of a document
  "keyed by the same naming scheme": "document identity is the canonical tool name
  across both the qualitative and quantitative tool sets".
\<close>

definition get_api_query_engine_tool :: "collaborators \<Rightarrow> document \<Rightarrow> query_engine_tool" where
  "get_api_query_engine_tool w document =
     \<lparr>tool_name = doc_id document,
      tool_description = api_tool_description w document,
      tool_query_engine = ApiQueryEngine document\<rparr>"

text \<open>
  The loop over \<open>doc_id_to_index.items()\<close>, appending one citation tool per entry
  (\<open>key\<close> is the loop's \<open>doc_id\<close>); \<open>id_to_doc[doc_id]\<close> raises \<open>KeyError\<close> for an
  unknown id.
\<close>

fun append_vector_tools ::
    "(string, document) dict \<Rightarrow> (string \<times> vector_store_index) list
      \<Rightarrow> query_engine_tool list \<Rightarrow> error + query_engine_tool list" where
  "append_vector_tools id_to_doc [] vector_query_engine_tools = Inr vector_query_engine_tools"
| "append_vector_tools id_to_doc ((key, index) # items) vector_query_engine_tools =
     (case dict_get id_to_doc key of
        Inl e \<Rightarrow> Inl e
      | Inr document \<Rightarrow>
          append_vector_tools id_to_doc items
            (vector_query_engine_tools @
              [\<lparr>tool_name = key,
                tool_description = build_description_for_document document,
                tool_query_engine = CitationQueryEngine index key 3 512\<rparr>]))"

text \<open>The loop over the documents, appending one API tool per SEC document.\<close>

fun append_api_tools ::
    "collaborators \<Rightarrow> document list \<Rightarrow> query_engine_tool list \<Rightarrow> query_engine_tool list" where
  "append_api_tools w [] api_query_engine_tools = api_query_engine_tools"
| "append_api_tools w (doc # docs) api_query_engine_tools =
     append_api_tools w docs
       (if sec_document doc \<noteq> None
        then api_query_engine_tools @ [get_api_query_engine_tool w doc]
        else api_query_engine_tools)"

record conversation =
  documents :: "document list"
  messages :: "message list"

text \<open>
  What \<open>get_chat_engine\<close> computes before it hands over to the agent library: the two
  tool lists behind the qualitative and the quantitative sub-question engines, and the
  chat history.
\<close>

record chat_engine =
  vector_query_engine_tools :: "query_engine_tool list"
  api_query_engine_tools :: "query_engine_tool list"
  chat_history :: "chat_message list"

definition get_chat_engine :: "collaborators \<Rightarrow> conversation \<Rightarrow> error + chat_engine" where
  "get_chat_engine w conversation =
     (case get_s3_fs w of
        Some e \<Rightarrow> Inl e
      | None \<Rightarrow>
          (case build_doc_id_to_index_map w (documents conversation) of
             Inl e \<Rightarrow> Inl e
           | Inr doc_id_to_index \<Rightarrow>
               (let id_to_doc = dict_of (map (\<lambda>doc. (doc_id doc, doc)) (documents conversation))
                in case append_vector_tools id_to_doc doc_id_to_index [] of
                     Inl e \<Rightarrow> Inl e
                   | Inr vector_tools \<Rightarrow>
                       Inr \<lparr>vector_query_engine_tools = vector_tools,
                            api_query_engine_tools =
                              append_api_tools w (documents conversation) [],
                            chat_history = get_chat_history (messages conversation)\<rparr>)))"

section \<open>messaging.py: events, payloads and records\<close>

text \<open>The event types and the payload keys of the callback interface.\<close>

datatype cb_event_type =
    CHUNKING | NODE_PARSING | EMBEDDING | LLM | QUERY | RETRIEVE | SYNTHESIZE | TREE
  | SUB_QUESTION | TEMPLATING | FUNCTION_CALL | RERANKING | EXCEPTION | AGENT_STEP

text \<open>
  \<open>EventPayload\<close>; the keys that share a name with an event type carry the suffix
  \<open>_KEY\<close>.
\<close>

datatype event_payload =
    DOCUMENTS | CHUNKS | NODES | PROMPT | MESSAGES | COMPLETION | RESPONSE | QUERY_STR
  | SUB_QUESTION_KEY | EMBEDDINGS | TOP_K | ADDITIONAL_KWARGS | SERIALIZED
  | FUNCTION_CALL_KEY | FUNCTION_OUTPUT | TOOL_KEY | MODEL_NAME | TEMPLATE
  | TEMPLATE_VARS | SYSTEM_PROMPT | QUERY_WRAPPER_PROMPT | EXCEPTION_KEY

text \<open>
  The objects found in a payload. An attribute that \<open>hasattr\<close> tests is an optional
  field, \<open>None\<close> when the object has no such attribute. The metadata of a node is a
  dict from strings to values.
\<close>

record base_node =
  node_metadata :: "(string, pyval) dict option"
  node_text :: "string option"

record node_with_score =
  node :: "base_node option"

record response_object =
  source_nodes :: "node_with_score list option"
  response :: "pyval option"

record sub_question_answer_pair =
  pair_sub_question :: string
  pair_answer :: "string option"
  pair_sources :: "node_with_score list"

text \<open>
  A payload value: an object with (some of) the attributes of a response, a
  sub-question/answer pair, or a plain value, which has none of these attributes.
\<close>

datatype payload_value =
    Object response_object
  | AnswerPair sub_question_answer_pair
  | Plain pyval

type_synonym payload = "(event_payload, payload_value) dict"

text \<open>A citation dict, with the keys \<open>document_id\<close>, \<open>page_number\<close> and \<open>text\<close>.\<close>

record citation =
  document_id :: pyval
  page_number :: int
  citation_text :: string

text \<open>The synthesized record, with the keys \<open>question\<close>, \<open>answer\<close> and \<open>citations\<close>.\<close>

record question_answer =
  qa_question :: string
  qa_answer :: string
  qa_citations :: "citation list"

text \<open>
  The values of a metadata map: the list stored under \<open>"sub_questions"\<close>, or the dict
  \<open>schema.QuestionAnswerPair.from_sub_question_answer_pair(sub_q).dict()\<close>. The
  latter function belongs to \<open>app.schema\<close>, which is not among the sources; the spec
  calls its result "a structured question/answer pair record built from that payload".
  It is kept as the uninterpreted image of \<open>sub_q\<close>.
\<close>

datatype metadata_value =
    QuestionAnswerList "question_answer list"
  | QuestionAnswerPairDict payload_value

type_synonym sub_process_metadata_map = "(string, metadata_value) dict"

text \<open>
  Modelled from the spec: \<open>MessageSubProcessSourceEnum\<close> is declared in
  \<open>app.models.db\<close>, which is not among the sources. The spec gives every record a
  source kind: \<open>MessageSubProcessSourceEnum[event_type.name]\<close>, the member named as the
  event type, is \<open>EventSource\<close> here; \<open>CONSTRUCTED_QUERY_ENGINE\<close> is the member of
  the "query-engine constructed" marker.
\<close>

datatype message_sub_process_source_enum =
    CONSTRUCTED_QUERY_ENGINE
  | EventSource cb_event_type

record streamed_message_sub_process =
  source :: message_sub_process_source_enum
  has_ended :: bool
  event_id :: string
  metadata_map :: "sub_process_metadata_map option"

text \<open>
  What travels on the channel: a sub-process record, or a \<open>StreamedMessage\<close> with its
  \<open>content\<close>.
\<close>

datatype channel_item =
    SubProcess streamed_message_sub_process
  | StreamedMessage string

text \<open>
  The send end of the memory channel, as the module sees it: the flag \<open>_closed\<close> and
  the items sent so far. \<open>send\<close> raises \<open>ClosedResourceError\<close> on a closed channel.
  The channel's capacity is not modelled, nor is the closing of the receive end, after
  which the library's \<open>send\<close> raises \<open>BrokenResourceError\<close>, an exception that no
  handler of the module names.
\<close>

record send_chan =
  closed :: bool
  sent :: "channel_item list"

definition send :: "send_chan \<Rightarrow> channel_item \<Rightarrow> error + send_chan" where
  "send chan item =
     (if closed chan then Inl ClosedResourceError
      else Inr (chan\<lparr>sent := sent chan @ [item]\<rparr>))"

section \<open>messaging.py: \<open>ChatCallbackHandler\<close>\<close>

text \<open>
  The loop over \<open>response.source_nodes\<close>. The handler \<open>except (ValueError, TypeError)\<close>
  passes; any other exception would leave the loop.
\<close>

fun collect_citations :: "node_with_score list \<Rightarrow> citation list \<Rightarrow> error + citation list" where
  "collect_citations [] citations = Inr citations"
| "collect_citations (n # ns) citations =
     (case node n of
        None \<Rightarrow> collect_citations ns citations
      | Some inner \<Rightarrow>
          (case node_metadata inner of
             None \<Rightarrow> collect_citations ns citations
           | Some metadata \<Rightarrow>
               (case map_of metadata ''db_document_id'' of
                  None \<Rightarrow> collect_citations ns citations
                | Some db_document_id \<Rightarrow>
                    (case map_of metadata ''page_label'' of
                       None \<Rightarrow> collect_citations ns citations
                     | Some page_label \<Rightarrow>
                         (case py_int page_label of
                            Inl e \<Rightarrow>
                              if e = ValueError \<or> e = TypeError
                              then collect_citations ns citations
                              else Inl e
                          | Inr page \<Rightarrow>
                              collect_citations ns
                                (citations @
                                  [\<lparr>document_id = db_document_id,
                                    page_number = page,
                                    citation_text =
                                      (case node_text inner of
                                         Some t \<Rightarrow> take 200 t
                                       | None \<Rightarrow> [])\<rparr>]))))))"

definition placeholder_question :: string where
  "placeholder_question = ''What are the main business focus areas?''"

text \<open>
  \<open>get_metadata_from_event\<close>. \<open>sub_question_key\<close> is
  \<open>SubProcessMetadataKeysEnum.SUB_QUESTION.value\<close>, a constant of \<open>app.schema\<close>.
  \<open>EventPayload.RESPONSE in payload\<close> raises \<open>TypeError\<close> when \<open>payload\<close> is \<open>None\<close>.
  The parameter \<open>is_start_event\<close> is not read.
\<close>

definition get_metadata_from_event ::
    "string \<Rightarrow> cb_event_type \<Rightarrow> payload option \<Rightarrow> bool \<Rightarrow> error + sub_process_metadata_map" where
  "get_metadata_from_event sub_question_key event_type payload is_start_event =
     (case payload of
        None \<Rightarrow> Inl TypeError
      | Some p \<Rightarrow>
          (case map_of p RESPONSE of
             Some resp \<Rightarrow>
               (case resp of
                  Object r \<Rightarrow>
                    (case source_nodes r of
                       None \<Rightarrow> Inr []
                     | Some nodes \<Rightarrow>
                         (case response r of
                            None \<Rightarrow> Inr []
                          | Some text \<Rightarrow>
                              (case collect_citations nodes [] of
                                 Inl e \<Rightarrow> Inl e
                               | Inr cs \<Rightarrow>
                                   if cs \<noteq> []
                                   then Inr [(''sub_questions'',
                                              QuestionAnswerList
                                                [\<lparr>qa_question = placeholder_question,
                                                  qa_answer = py_str text,
                                                  qa_citations = cs\<rparr>])]
                                   else Inr [])))
                | AnswerPair q \<Rightarrow> Inr []
                | Plain v \<Rightarrow> Inr [])
           | None \<Rightarrow>
               (case (if event_type = SUB_QUESTION then map_of p SUB_QUESTION_KEY else None) of
                  Some sub_q \<Rightarrow> Inr [(sub_question_key, QuestionAnswerPairDict sub_q)]
                | None \<Rightarrow>
                    (case (if event_type = FUNCTION_CALL then map_of p FUNCTION_OUTPUT else None) of
                       Some (Plain (PyStr response_str)) \<Rightarrow>
                         Inr [(''sub_questions'',
                               QuestionAnswerList
                                 [\<lparr>qa_question = placeholder_question,
                                   qa_answer = response_str,
                                   qa_citations = []\<rparr>])]
                     | _ \<Rightarrow> Inr []))))"

text \<open>
  \<open>async_on_event\<close>, the body of the task that \<open>on_event_start\<close> and \<open>on_event_end\<close>
  create. The result is the exception that leaves the task, if any, and the channel
  afterwards. \<open>metadata_map or None\<close> turns the empty dict into \<open>None\<close>.
\<close>

definition async_on_event ::
    "string \<Rightarrow> send_chan \<Rightarrow> cb_event_type \<Rightarrow> payload option \<Rightarrow> string \<Rightarrow> bool
      \<Rightarrow> error option \<times> send_chan" where
  "async_on_event sub_question_key chan event_type payload eid is_start_event =
     (case get_metadata_from_event sub_question_key event_type payload is_start_event of
        Inl e \<Rightarrow> (Some e, chan)
      | Inr m \<Rightarrow>
          (let metadata = (if m = [] then None else Some m);
               src = EventSource event_type
           in if closed chan then (None, chan)
              else (case send chan
                           (SubProcess \<lparr>source = src,
                                        has_ended = (\<not> is_start_event),
                                        event_id = eid,
                                        metadata_map = metadata\<rparr>) of
                      Inr chan' \<Rightarrow> (None, chan')
                    | Inl e \<Rightarrow> if e = ClosedResourceError then (None, chan) else (Some e, chan))))"

definition on_event_start ::
    "string \<Rightarrow> send_chan \<Rightarrow> cb_event_type \<Rightarrow> payload option \<Rightarrow> string
      \<Rightarrow> error option \<times> send_chan" where
  "on_event_start sub_question_key chan event_type payload eid =
     async_on_event sub_question_key chan event_type payload eid True"

definition on_event_end ::
    "string \<Rightarrow> send_chan \<Rightarrow> cb_event_type \<Rightarrow> payload option \<Rightarrow> string
      \<Rightarrow> error option \<times> send_chan" where
  "on_event_end sub_question_key chan event_type payload eid =
     async_on_event sub_question_key chan event_type payload eid False"

section \<open>messaging.py: \<open>handle_chat_message\<close>\<close>

text \<open>
  The agent's token stream as the loop meets it: \<open>Token text\<close> is the next item of
  \<open>async_response_gen()\<close>; \<open>ConsumerCloses\<close> says that the channel was closed while the
  loop was waiting for the next item (or for the end of the stream).
\<close>

datatype loop_exit = Exhausted string | Returned | Raised error

fun consume_stream :: "stream_event list \<Rightarrow> string \<Rightarrow> send_chan \<Rightarrow> loop_exit \<times> send_chan" where
  "consume_stream [] response_str chan = (Exhausted response_str, chan)"
| "consume_stream (ConsumerCloses # evs) response_str chan =
     consume_stream evs response_str (chan\<lparr>closed := True\<rparr>)"
| "consume_stream (Token text # evs) response_str chan =
     (let response_str' = response_str @ text
      in if closed chan then (Returned, chan)
         else (case send chan (StreamedMessage response_str') of
                 Inl e \<Rightarrow> (Raised e, chan)
               | Inr chan' \<Rightarrow> consume_stream evs response_str' chan'))"

definition fallback_message :: string where
  "fallback_message =
     ''Sorry, I either wasn'' @ [CHR 0x27] @ ''t able to understand your question or I don''
       @ [CHR 0x27] @ ''t have an answer for it.''"

definition templated_message :: "string \<Rightarrow> string" where
  "templated_message user_content =
     py_strip ([CHR 0x0A]
       @ ''Remember - if I have asked a relevant financial question, use your tools.''
       @ [CHR 0x0A, CHR 0x0A] @ user_content @ [CHR 0x0A] @ ''        '')"

text \<open>The body of \<open>async with send_chan\<close>.\<close>

definition chat_message_body ::
    "collaborators \<Rightarrow> conversation \<Rightarrow> string \<Rightarrow> send_chan \<Rightarrow> error option \<times> send_chan" where
  "chat_message_body w conversation user_content chan =
     (case get_chat_engine w conversation of
        Inl e \<Rightarrow> (Some e, chan)
      | Inr engine \<Rightarrow>
          (case send chan
                  (SubProcess \<lparr>source = CONSTRUCTED_QUERY_ENGINE,
                               has_ended = True,
                               event_id = uuid4 w,
                               metadata_map = None\<rparr>) of
             Inl e \<Rightarrow> (Some e, chan)
           | Inr chan1 \<Rightarrow>
               (case astream_chat w (templated_message user_content) of
                  Inl e \<Rightarrow> (Some e, chan1)
                | Inr events \<Rightarrow>
                    (case consume_stream events [] chan1 of
                       (Raised e, chan2) \<Rightarrow> (Some e, chan2)
                     | (Returned, chan2) \<Rightarrow> (None, chan2)
                     | (Exhausted response_str, chan2) \<Rightarrow>
                         if py_strip response_str = []
                         then (case send chan2 (StreamedMessage fallback_message) of
                                 Inl e \<Rightarrow> (Some e, chan2)
                               | Inr chan3 \<Rightarrow> (None, chan3))
                         else (None, chan2)))))"

text \<open>
  \<open>handle_chat_message\<close>: the result is the exception that leaves the function, if any,
  and the channel afterwards; leaving \<open>async with send_chan\<close> closes the send end on
  every path.
\<close>

definition handle_chat_message ::
    "collaborators \<Rightarrow> conversation \<Rightarrow> string \<Rightarrow> send_chan \<Rightarrow> error option \<times> send_chan" where
  "handle_chat_message w conversation user_content chan =
     (case chat_message_body w conversation user_content chan of
        (raised, chan') \<Rightarrow> (raised, chan'\<lparr>closed := True\<rparr>))"

section \<open>Sample collaborators\<close>

text \<open>
  Collaborators under which nothing fails: the loader returns one index per requested
  id, every document reads as an empty list of pages, and the agent answers with an
  empty stream.
\<close>

definition sample_collaborators :: collaborators where
  "sample_collaborators =
     \<lparr>get_s3_fs = None,
      get_vector_store_singleton = None,
      get_storage_context = None,
      create_storage_context = None,
      load_indices_from_storage = (\<lambda>ids. Inr (map (\<lambda>i. \<lparr>index_id = i\<rparr>) ids)),
      reopen_storage_context = None,
      fetch_and_read_document = (\<lambda>doc. Inr []),
      from_documents = (\<lambda>docs. Inr \<lparr>index_id = ''fresh''\<rparr>),
      persist = (\<lambda>index. None),
      api_tool_description = (\<lambda>doc. ''financial data of '' @ doc_id doc),
      uuid4 = ''00000000-0000-4000-8000-000000000000'',
      astream_chat = (\<lambda>prompt. Inr [])\<rparr>"

section \<open>Properties of the chat history\<close>

lemma all_dropWhile: "(\<forall>x\<in>set (dropWhile P s). P x) \<longleftrightarrow> (\<forall>x\<in>set s. P x)"
  by (induction s) simp_all

lemma py_strip_empty_iff: "py_strip s = [] \<longleftrightarrow> (\<forall>c\<in>set s. is_space c)"
  by (simp add: py_strip_def all_dropWhile)

lemma append_chat_messages_eq:
  "append_chat_messages ms acc =
     acc @ map (\<lambda>m. \<lparr>cm_content = content m,
                     cm_role = (if role m = assistant then ASSISTANT else USER)\<rparr>) ms"
  by (induction ms arbitrary: acc) (simp_all add: Let_def)

lemma get_chat_history_eq:
  "get_chat_history ms =
     map (\<lambda>m. \<lparr>cm_content = content m,
               cm_role = (if role m = assistant then ASSISTANT else USER)\<rparr>)
       (sort_key created_at (filter keep_message ms))"
  by (simp add: get_chat_history_def append_chat_messages_eq)

text \<open>
  Claim C3. For every list of messages, \<open>get_chat_history\<close> returns the chat messages of
  exactly those input messages whose content has a character that is not white space
  and whose status is \<open>SUCCESS\<close>, each once per occurrence, in ascending order of
  \<open>created_at\<close>, the role \<open>assistant\<close> mapped to \<open>ASSISTANT\<close> and every other role to
  \<open>USER\<close>.
\<close>

theorem get_chat_history_spec:
  "\<exists>ks. get_chat_history ms =
          map (\<lambda>m. \<lparr>cm_content = content m,
                    cm_role = (if role m = assistant then ASSISTANT else USER)\<rparr>) ks
      \<and> mset ks = filter_mset (\<lambda>m. (\<exists>c\<in>set (content m). \<not> is_space c) \<and> status m = SUCCESS) (mset ms)
      \<and> sorted (map created_at ks)"
proof -
  let ?ks = "sort_key created_at (filter keep_message ms)"
  have k: "keep_message = (\<lambda>m. (\<exists>c\<in>set (content m). \<not> is_space c) \<and> status m = SUCCESS)"
    by (auto simp: keep_message_def py_strip_empty_iff fun_eq_iff)
  have "mset ?ks = filter_mset keep_message (mset ms)" by simp
  then show ?thesis
    using get_chat_history_eq[of ms] k by (intro exI[of _ ?ks]) simp
qed

theorem get_chat_history_spec_witness:
  "get_chat_history
     [\<lparr>content = ''b'', role = assistant, status = SUCCESS, created_at = 5\<rparr>,
      \<lparr>content = ''  '', role = user, status = SUCCESS, created_at = 1\<rparr>,
      \<lparr>content = ''x'', role = user, status = ERROR, created_at = 0\<rparr>,
      \<lparr>content = ''a'', role = user, status = SUCCESS, created_at = 2\<rparr>]
   = [\<lparr>cm_content = ''a'', cm_role = USER\<rparr>, \<lparr>cm_content = ''b'', cm_role = ASSISTANT\<rparr>]
   \<and> (\<exists>ks. get_chat_history
          [\<lparr>content = ''b'', role = assistant, status = SUCCESS, created_at = 5\<rparr>,
           \<lparr>content = ''  '', role = user, status = SUCCESS, created_at = 1\<rparr>,
           \<lparr>content = ''x'', role = user, status = ERROR, created_at = 0\<rparr>,
           \<lparr>content = ''a'', role = user, status = SUCCESS, created_at = 2\<rparr>]
        = map (\<lambda>m. \<lparr>cm_content = content m,
                     cm_role = (if role m = assistant then ASSISTANT else USER)\<rparr>) ks
      \<and> mset ks
        = filter_mset (\<lambda>m. (\<exists>c\<in>set (content m). \<not> is_space c) \<and> status m = SUCCESS)
            (mset [\<lparr>content = ''b'', role = assistant, status = SUCCESS, created_at = 5\<rparr>,
                   \<lparr>content = ''  '', role = user, status = SUCCESS, created_at = 1\<rparr>,
                   \<lparr>content = ''x'', role = user, status = ERROR, created_at = 0\<rparr>,
                   \<lparr>content = ''a'', role = user, status = SUCCESS, created_at = 2\<rparr>])
      \<and> sorted (map created_at ks))"
proof (rule conjI)
  show "get_chat_history
     [\<lparr>content = ''b'', role = assistant, status = SUCCESS, created_at = 5\<rparr>,
      \<lparr>content = ''  '', role = user, status = SUCCESS, created_at = 1\<rparr>,
      \<lparr>content = ''x'', role = user, status = ERROR, created_at = 0\<rparr>,
      \<lparr>content = ''a'', role = user, status = SUCCESS, created_at = 2\<rparr>]
   = [\<lparr>cm_content = ''a'', cm_role = USER\<rparr>, \<lparr>cm_content = ''b'', cm_role = ASSISTANT\<rparr>]"
    by (simp add: get_chat_history_def keep_message_def py_strip_def is_space_def)
qed (rule get_chat_history_spec)

lemma map_insort_key: "map f (insort_key f x xs) = insort (f x) (map f xs)"
  by (induction xs) auto

lemma map_sort_key: "map f (sort_key f xs) = sort (map f xs)"
  by (induction xs) (simp_all add: map_insort_key)

lemma sort_key_map_determined:
  assumes "mset xs = mset ys"
    and "\<forall>a\<in>set xs. \<forall>b\<in>set xs. f a = f b \<longrightarrow> g a = g b"
  shows "map g (sort_key f xs) = map g (sort_key f ys)"
proof -
  define h where "h t = g (SOME a. a \<in> set xs \<and> f a = t)" for t
  have h: "g a = h (f a)" if "a \<in> set xs" for a
  proof -
    let ?b = "SOME b. b \<in> set xs \<and> f b = f a"
    have "\<exists>b. b \<in> set xs \<and> f b = f a" using that by blast
    then have b: "?b \<in> set xs \<and> f ?b = f a" by (rule someI_ex)
    then have "g ?b = g a" using assms(2) that by blast
    then show ?thesis by (simp add: h_def)
  qed
  have sets: "set ys = set xs" using assms(1) by (metis set_mset_mset)
  have via_keys: "map g (sort_key f zs) = map h (sort (map f zs))" if "set zs = set xs" for zs
  proof -
    have "map g (sort_key f zs) = map (\<lambda>a. h (f a)) (sort_key f zs)"
      using h that by (intro map_cong) simp_all
    also have "\<dots> = map h (map f (sort_key f zs))" by simp
    finally show ?thesis by (simp only: map_sort_key)
  qed
  have "mset (map f xs) = mset (map f ys)" using assms(1) by (metis mset_map)
  then have "sort (map f xs) = sort (map f ys)"
    by (intro properties_for_sort) simp_all
  then show ?thesis by (simp only: via_keys[OF refl] via_keys[OF sets])
qed

text \<open>
  Claim C4, amended. Permuting the input list does not change the output of
  \<open>get_chat_history\<close>, provided that any two retained messages with the same creation
  timestamp have the same content and the same mapped role. In every case the output
  is the image of the retained messages in ascending order of \<open>created_at\<close>, in which
  the retained messages of one timestamp stand in their input order.
\<close>

theorem get_chat_history_permutation:
  "(mset ms = mset ms'
     \<and> (\<forall>a\<in>set ms. \<forall>b\<in>set ms.
           keep_message a \<and> keep_message b \<and> created_at a = created_at b
             \<longrightarrow> content a = content b \<and> (role a = assistant \<longleftrightarrow> role b = assistant))
    \<longrightarrow> get_chat_history ms = get_chat_history ms')
   \<and> (\<exists>ks. get_chat_history ms
              = map (\<lambda>m. \<lparr>cm_content = content m,
                           cm_role = (if role m = assistant then ASSISTANT else USER)\<rparr>) ks
          \<and> sorted (map created_at ks)
          \<and> (\<forall>t. filter (\<lambda>m. created_at m = t) ks
                 = filter (\<lambda>m. created_at m = t
                              \<and> (\<exists>c\<in>set (content m). \<not> is_space c) \<and> status m = SUCCESS) ms))"
proof (intro conjI impI)
  assume a: "mset ms = mset ms'
     \<and> (\<forall>a\<in>set ms. \<forall>b\<in>set ms.
           keep_message a \<and> keep_message b \<and> created_at a = created_at b
             \<longrightarrow> content a = content b \<and> (role a = assistant \<longleftrightarrow> role b = assistant))"
  then have "mset (filter keep_message ms) = mset (filter keep_message ms')"
    by (metis mset_filter)
  moreover have "\<forall>a\<in>set (filter keep_message ms). \<forall>b\<in>set (filter keep_message ms).
      created_at a = created_at b \<longrightarrow>
        \<lparr>cm_content = content a, cm_role = (if role a = assistant then ASSISTANT else USER)\<rparr>
      = \<lparr>cm_content = content b, cm_role = (if role b = assistant then ASSISTANT else USER)\<rparr>"
  proof (intro ballI impI)
    fix x y
    assume "x \<in> set (filter keep_message ms)" "y \<in> set (filter keep_message ms)"
      and "created_at x = created_at y"
    then have "content x = content y \<and> (role x = assistant \<longleftrightarrow> role y = assistant)"
      using a by simp
    then show "\<lparr>cm_content = content x, cm_role = (if role x = assistant then ASSISTANT else USER)\<rparr>
      = \<lparr>cm_content = content y, cm_role = (if role y = assistant then ASSISTANT else USER)\<rparr>"
      by simp
  qed
  ultimately show "get_chat_history ms = get_chat_history ms'"
    unfolding get_chat_history_eq by (rule sort_key_map_determined)
next
  let ?ks = "sort_key created_at (filter keep_message ms)"
  have k: "keep_message = (\<lambda>m. (\<exists>c\<in>set (content m). \<not> is_space c) \<and> status m = SUCCESS)"
    by (auto simp: keep_message_def py_strip_empty_iff fun_eq_iff)
  have stable: "filter (\<lambda>m. created_at m = t) ?ks
      = filter (\<lambda>m. created_at m = t
                   \<and> (\<exists>c\<in>set (content m). \<not> is_space c) \<and> status m = SUCCESS) ms" for t
  proof -
    have "filter (\<lambda>m. created_at m = t) ?ks
        = filter (\<lambda>m. created_at m = t) (filter keep_message ms)"
      by (rule sort_key_stable)
    also have "\<dots> = filter (\<lambda>m. keep_message m \<and> created_at m = t) ms" by simp
    also have "\<dots> = filter (\<lambda>m. created_at m = t \<and> keep_message m) ms"
      by (rule filter_cong) auto
    finally show ?thesis by (simp only: k)
  qed
  show "\<exists>ks. get_chat_history ms
              = map (\<lambda>m. \<lparr>cm_content = content m,
                           cm_role = (if role m = assistant then ASSISTANT else USER)\<rparr>) ks
          \<and> sorted (map created_at ks)
          \<and> (\<forall>t. filter (\<lambda>m. created_at m = t) ks
                 = filter (\<lambda>m. created_at m = t
                              \<and> (\<exists>c\<in>set (content m). \<not> is_space c) \<and> status m = SUCCESS) ms)"
    using get_chat_history_eq[of ms] stable by (intro exI[of _ ?ks]) simp
qed

theorem get_chat_history_permutation_witness:
  "get_chat_history
     [\<lparr>content = ''b'', role = assistant, status = SUCCESS, created_at = 0\<rparr>,
      \<lparr>content = ''a'', role = user, status = SUCCESS, created_at = 1\<rparr>,
      \<lparr>content = [], role = user, status = SUCCESS, created_at = 0\<rparr>,
      \<lparr>content = ''b'', role = assistant, status = SUCCESS, created_at = 0\<rparr>]
   = get_chat_history
     [\<lparr>content = [], role = user, status = SUCCESS, created_at = 0\<rparr>,
      \<lparr>content = ''b'', role = assistant, status = SUCCESS, created_at = 0\<rparr>,
      \<lparr>content = ''b'', role = assistant, status = SUCCESS, created_at = 0\<rparr>,
      \<lparr>content = ''a'', role = user, status = SUCCESS, created_at = 1\<rparr>]
   \<and> get_chat_history
     [\<lparr>content = ''first'', role = user, status = SUCCESS, created_at = 7\<rparr>,
      \<lparr>content = ''second'', role = assistant, status = SUCCESS, created_at = 7\<rparr>]
   = [\<lparr>cm_content = ''first'', cm_role = USER\<rparr>,
      \<lparr>cm_content = ''second'', cm_role = ASSISTANT\<rparr>]"
proof (rule conjI)
  let ?b = "\<lparr>content = ''b'', role = assistant, status = SUCCESS, created_at = 0\<rparr>"
  let ?a = "\<lparr>content = ''a'', role = user, status = SUCCESS, created_at = 1\<rparr>"
  let ?e = "\<lparr>content = [], role = user, status = SUCCESS, created_at = 0\<rparr>"
  have "mset [?b, ?a, ?e, ?b] = mset [?e, ?b, ?b, ?a]
     \<and> (\<forall>x\<in>set [?b, ?a, ?e, ?b]. \<forall>y\<in>set [?b, ?a, ?e, ?b].
           keep_message x \<and> keep_message y \<and> created_at x = created_at y
             \<longrightarrow> content x = content y \<and> (role x = assistant \<longleftrightarrow> role y = assistant))"
    by (simp add: keep_message_def py_strip_def)
  then show "get_chat_history [?b, ?a, ?e, ?b] = get_chat_history [?e, ?b, ?b, ?a]"
    by (rule get_chat_history_permutation[THEN conjunct1, rule_format])
next
  let ?f = "\<lparr>content = ''first'', role = user, status = SUCCESS, created_at = 7\<rparr>"
  let ?s = "\<lparr>content = ''second'', role = assistant, status = SUCCESS, created_at = 7\<rparr>"
  from get_chat_history_permutation[of "[?f, ?s]", THEN conjunct2] obtain ks where
    out: "get_chat_history [?f, ?s]
            = map (\<lambda>m. \<lparr>cm_content = content m,
                         cm_role = (if role m = assistant then ASSISTANT else USER)\<rparr>) ks"
    and ties: "\<forall>t. filter (\<lambda>m. created_at m = t) ks
                 = filter (\<lambda>m. created_at m = t
                              \<and> (\<exists>c\<in>set (content m). \<not> is_space c) \<and> status m = SUCCESS)
                     [?f, ?s]"
    by (elim exE conjE)
  have at7: "filter (\<lambda>m. created_at m = 7) ks = [?f, ?s]"
    using ties[rule_format, of 7] by (simp add: is_space_def)
  have "created_at x = 7" if "x \<in> set ks" for x
  proof (rule ccontr)
    assume "created_at x \<noteq> 7"
    then have "filter (\<lambda>m. created_at m = created_at x) ks = []"
      using ties[rule_format, of "created_at x"] by simp
    with that show False by (auto simp: filter_empty_conv)
  qed
  then have "filter (\<lambda>m. created_at m = 7) ks = ks" by (simp add: filter_id_conv)
  with at7 have "ks = [?f, ?s]" by simp
  with out show "get_chat_history [?f, ?s]
      = [\<lparr>cm_content = ''first'', cm_role = USER\<rparr>, \<lparr>cm_content = ''second'', cm_role = ASSISTANT\<rparr>]"
    by simp
qed

text \<open>
  Two retained messages with the same creation timestamp and different contents: the
  two orders of the input give different outputs.
\<close>

theorem get_chat_history_tie_counterexample:
  "mset [\<lparr>content = ''a'', role = user, status = SUCCESS, created_at = 0\<rparr>,
         \<lparr>content = ''b'', role = user, status = SUCCESS, created_at = 0\<rparr>]
   = mset [\<lparr>content = ''b'', role = user, status = SUCCESS, created_at = 0\<rparr>,
           \<lparr>content = ''a'', role = user, status = SUCCESS, created_at = 0\<rparr>]
   \<and> get_chat_history
         [\<lparr>content = ''a'', role = user, status = SUCCESS, created_at = 0\<rparr>,
          \<lparr>content = ''b'', role = user, status = SUCCESS, created_at = 0\<rparr>]
     \<noteq> get_chat_history
         [\<lparr>content = ''b'', role = user, status = SUCCESS, created_at = 0\<rparr>,
          \<lparr>content = ''a'', role = user, status = SUCCESS, created_at = 0\<rparr>]"
  by (simp add: get_chat_history_def keep_message_def py_strip_def is_space_def add_mset_commute)

section \<open>Properties of the index map\<close>

lemma dict_set_keys:
  "map fst (dict_set k v d) = (if k \<in> set (map fst d) then map fst d else map fst d @ [k])"
  by (simp add: dict_set_def update_keys)

lemma dict_set_distinct: "distinct (map fst d) \<Longrightarrow> distinct (map fst (dict_set k v d))"
  by (simp add: dict_set_keys)

lemma dict_set_key_set: "fst ` set (dict_set k v d) = insert k (fst ` set d)"
  by (simp add: dict_set_def dom_update)

lemma fold_dict_set_keys:
  "fst ` set (fold (\<lambda>(k, v) d. dict_set k v d) kvs d) = fst ` set d \<union> fst ` set kvs"
proof (induction kvs arbitrary: d)
  case Nil
  then show ?case by simp
next
  case (Cons kv kvs)
  obtain k v where kv: "kv = (k, v)" by (cases kv)
  show ?case using Cons.IH[of "dict_set k v d"] by (simp add: kv dict_set_key_set)
qed

lemma fold_dict_set_distinct:
  "distinct (map fst d) \<Longrightarrow> distinct (map fst (fold (\<lambda>(k, v) d. dict_set k v d) kvs d))"
proof (induction kvs arbitrary: d)
  case Nil
  then show ?case by simp
next
  case (Cons kv kvs)
  obtain k v where kv: "kv = (k, v)" by (cases kv)
  show ?case using Cons.IH[of "dict_set k v d"] Cons.prems by (simp add: kv dict_set_distinct)
qed

lemma dict_of_keys: "fst ` set (dict_of kvs) = fst ` set kvs"
  by (simp add: dict_of_def fold_dict_set_keys)

lemma dict_of_distinct: "distinct (map fst (dict_of kvs))"
  by (simp add: dict_of_def fold_dict_set_distinct)

lemma rebuild_keys:
  "rebuild_doc_id_to_index w docs d = Inr m \<Longrightarrow>
     fst ` set m = fst ` set d \<union> doc_id ` set docs"
proof (induction docs arbitrary: d)
  case Nil
  then show ?case by simp
next
  case (Cons doc docs)
  from Cons.prems obtain ls ix where
    "rebuild_doc_id_to_index w docs (dict_set (doc_id doc) (ix\<lparr>index_id := doc_id doc\<rparr>) d) = Inr m"
    by (auto simp: Let_def split: sum.splits option.splits)
  from Cons.IH[OF this] show ?case by (simp add: dict_set_key_set)
qed

lemma rebuild_distinct:
  "rebuild_doc_id_to_index w docs d = Inr m \<Longrightarrow> distinct (map fst d) \<Longrightarrow> distinct (map fst m)"
proof (induction docs arbitrary: d)
  case Nil
  then show ?case by simp
next
  case (Cons doc docs)
  from Cons.prems(1) obtain ix where
    "rebuild_doc_id_to_index w docs (dict_set (doc_id doc) (ix\<lparr>index_id := doc_id doc\<rparr>) d) = Inr m"
    by (auto simp: Let_def split: sum.splits option.splits)
  from Cons.IH[OF this] Cons.prems(2) show ?case by (simp add: dict_set_distinct)
qed

lemma load_keys_subset:
  "load_doc_id_to_index w docs = Inr m \<Longrightarrow>
     \<exists>indices. load_indices_from_storage w (map doc_id docs) = Inr indices
        \<and> m = dict_of (zip (map doc_id docs) indices)"
  by (auto simp: load_doc_id_to_index_def Let_def split: sum.splits option.splits if_splits)

lemma build_cases:
  assumes "build_doc_id_to_index_map w docs = Inr m"
  shows "load_doc_id_to_index w docs = Inr m
       \<or> (load_doc_id_to_index w docs = Inl ValueError \<and> rebuild_doc_id_to_index w docs [] = Inr m)"
  using assms
  by (auto simp: build_doc_id_to_index_map_def split: sum.splits option.splits if_splits)

lemma build_distinct:
  assumes "build_doc_id_to_index_map w docs = Inr m"
  shows "distinct (map fst m)"
  using build_cases[OF assms] load_keys_subset[of w docs m] rebuild_distinct[of w docs "[]" m]
  by (auto simp: dict_of_distinct)

lemma build_keys_subset:
  assumes "build_doc_id_to_index_map w docs = Inr m"
  shows "set (map fst m) \<subseteq> set (map doc_id docs)"
proof -
  from build_cases[OF assms] show ?thesis
  proof
    assume "load_doc_id_to_index w docs = Inr m"
    then obtain indices where m: "m = dict_of (zip (map doc_id docs) indices)"
      using load_keys_subset by blast
    have "fst ` set (zip (map doc_id docs) indices) \<subseteq> doc_id ` set docs"
      by (auto dest: set_zip_leftD)
    then show ?thesis by (simp add: m dict_of_keys)
  next
    assume "load_doc_id_to_index w docs = Inl ValueError \<and> rebuild_doc_id_to_index w docs [] = Inr m"
    then show ?thesis using rebuild_keys[of w docs "[]" m] by simp
  qed
qed

text \<open>
  Claim C1. Whenever \<open>build_doc_id_to_index_map\<close> returns a mapping for the documents
  \<open>D\<close>, the keys of the mapping are exactly the id strings of \<open>D\<close>, each key once; this
  holds when the indices were loaded from storage and when they were rebuilt after the
  loader raised \<open>ValueError\<close>. The library's loader is taken to return one index per
  requested id whenever it returns.
\<close>

theorem build_doc_id_to_index_map_keys:
  assumes contract: "\<forall>ids indices. load_indices_from_storage w ids = Inr indices
                        \<longrightarrow> length indices = length ids"
    and built: "build_doc_id_to_index_map w D = Inr m"
  shows "set (map fst m) = set (map doc_id D) \<and> distinct (map fst m)"
proof -
  have "set (map fst m) = set (map doc_id D)"
    using build_cases[OF built]
  proof
    assume "load_doc_id_to_index w D = Inr m"
    then obtain indices where l: "load_indices_from_storage w (map doc_id D) = Inr indices"
      and m: "m = dict_of (zip (map doc_id D) indices)"
      using load_keys_subset by blast
    from contract l have "length indices = length (map doc_id D)" by blast
    then have "map fst (zip (map doc_id D) indices) = map doc_id D"
      by (rule map_fst_zip[OF sym])
    then have "fst ` set (zip (map doc_id D) indices) = doc_id ` set D"
      by (metis list.set_map)
    then show ?thesis by (simp add: m dict_of_keys)
  next
    assume "load_doc_id_to_index w D = Inl ValueError \<and> rebuild_doc_id_to_index w D [] = Inr m"
    then show ?thesis using rebuild_keys[of w D "[]" m] by simp
  qed
  then show ?thesis using build_distinct[OF built] by simp
qed

theorem build_doc_id_to_index_map_keys_witness:
  "build_doc_id_to_index_map sample_collaborators
       [\<lparr>doc_id = ''d1'', url = ''u1'', sec_document = None\<rparr>,
        \<lparr>doc_id = ''d2'', url = ''u2'', sec_document = None\<rparr>]
     = Inr [(''d1'', \<lparr>index_id = ''d1''\<rparr>), (''d2'', \<lparr>index_id = ''d2''\<rparr>)]
   \<and> build_doc_id_to_index_map
       (sample_collaborators\<lparr>load_indices_from_storage := \<lambda>ids. Inl ValueError\<rparr>)
       [\<lparr>doc_id = ''d1'', url = ''u1'', sec_document = None\<rparr>,
        \<lparr>doc_id = ''d2'', url = ''u2'', sec_document = None\<rparr>]
     = Inr [(''d1'', \<lparr>index_id = ''d1''\<rparr>), (''d2'', \<lparr>index_id = ''d2''\<rparr>)]
   \<and> set (map fst [(''d1'', \<lparr>index_id = ''d1''\<rparr>), (''d2'', \<lparr>index_id = ''d2''\<rparr>)])
       = set (map doc_id [\<lparr>doc_id = ''d1'', url = ''u1'', sec_document = None\<rparr>,
                          \<lparr>doc_id = ''d2'', url = ''u2'', sec_document = None\<rparr>])
   \<and> distinct (map fst [(''d1'', \<lparr>index_id = ''d1''\<rparr>), (''d2'', \<lparr>index_id = ''d2''\<rparr>)])"
proof -
  let ?D = "[\<lparr>doc_id = ''d1'', url = ''u1'', sec_document = None\<rparr>,
             \<lparr>doc_id = ''d2'', url = ''u2'', sec_document = None\<rparr>]"
  let ?m = "[(''d1'', \<lparr>index_id = ''d1''\<rparr>), (''d2'', \<lparr>index_id = ''d2''\<rparr>)]"
  let ?w = "sample_collaborators\<lparr>load_indices_from_storage := \<lambda>ids. Inl ValueError\<rparr>"
  have loaded: "build_doc_id_to_index_map sample_collaborators ?D = Inr ?m"
    by (simp add: build_doc_id_to_index_map_def load_doc_id_to_index_def
        sample_collaborators_def dict_of_def dict_set_def)
  have rebuilt: "build_doc_id_to_index_map ?w ?D = Inr ?m"
    by (simp add: build_doc_id_to_index_map_def load_doc_id_to_index_def
        sample_collaborators_def dict_set_def)
  have c1: "\<forall>ids indices. load_indices_from_storage sample_collaborators ids = Inr indices
              \<longrightarrow> length indices = length ids"
    by (auto simp: sample_collaborators_def)
  have c2: "\<forall>ids indices. load_indices_from_storage ?w ids = Inr indices
              \<longrightarrow> length indices = length ids"
    by simp
  show ?thesis
    using build_doc_id_to_index_map_keys[OF c1 loaded]
      build_doc_id_to_index_map_keys[OF c2 rebuilt] loaded rebuilt
    by simp
qed

section \<open>Properties of the tools\<close>

lemma append_vector_tools_names:
  "append_vector_tools id_to_doc items acc = Inr ts \<Longrightarrow>
     map tool_name ts = map tool_name acc @ map fst items"
proof (induction items arbitrary: acc)
  case Nil
  then show ?case by simp
next
  case (Cons item items)
  obtain k ix where item: "item = (k, ix)" by (cases item)
  from Cons.prems obtain d where d: "dict_get id_to_doc k = Inr d"
    and rest: "append_vector_tools id_to_doc items
                 (acc @ [\<lparr>tool_name = k, tool_description = build_description_for_document d,
                          tool_query_engine = CitationQueryEngine ix k 3 512\<rparr>]) = Inr ts"
    by (auto simp: item split: sum.splits)
  from Cons.IH[OF rest] show ?case by (simp add: item)
qed

lemma append_vector_tools_total:
  "fst ` set items \<subseteq> fst ` set id_to_doc \<Longrightarrow>
     \<exists>ts. append_vector_tools id_to_doc items acc = Inr ts"
proof (induction items arbitrary: acc)
  case Nil
  then show ?case by simp
next
  case (Cons item items)
  obtain k ix where item: "item = (k, ix)" by (cases item)
  from Cons.prems have "k \<in> fst ` set id_to_doc" by (simp add: item)
  then obtain d where "map_of id_to_doc k = Some d"
    by (metis domD dom_map_of_conv_image_fst)
  then have d: "dict_get id_to_doc k = Inr d" by (simp add: dict_get_def)
  from Cons.prems have "fst ` set items \<subseteq> fst ` set id_to_doc" by simp
  from Cons.IH[OF this] show ?case by (simp add: item d)
qed

lemma append_api_tools_eq:
  "append_api_tools w docs acc =
     acc @ map (get_api_query_engine_tool w) (filter (\<lambda>d. sec_document d \<noteq> None) docs)"
  by (induction docs arbitrary: acc) simp_all

lemma api_tool_names:
  "map tool_name (append_api_tools w docs []) =
     map doc_id (filter (\<lambda>d. sec_document d \<noteq> None) docs)"
  by (simp add: append_api_tools_eq get_api_query_engine_tool_def comp_def)

lemma distinct_count_one:
  "distinct (map f xs) \<Longrightarrow> x \<in> set xs \<Longrightarrow> length (filter (\<lambda>t. f t = f x) xs) = 1"
proof (induction xs)
  case Nil
  then show ?case by simp
next
  case (Cons y ys)
  show ?case
  proof (cases "f y = f x")
    case True
    have "f x \<notin> f ` set ys" using Cons.prems(1) True by simp
    then have "\<forall>t\<in>set ys. f t \<noteq> f x" by (metis imageI)
    then have "filter (\<lambda>t. f t = f x) ys = []" by (simp add: filter_empty_conv)
    with True show ?thesis by simp
  next
    case False
    with Cons.prems have "x \<in> set ys" "distinct (map f ys)" by auto
    with Cons.IH False show ?thesis by simp
  qed
qed

lemma id_to_doc_keys:
  "fst ` set (dict_of (map (\<lambda>doc. (doc_id doc, doc)) docs)) = doc_id ` set docs"
  by (simp add: dict_of_keys image_image)

text \<open>
  Claim C9. When the index map is built, \<open>get_chat_engine\<close> returns, and its qualitative
  tools are named by the keys of the index map, in the map's order: every document of
  the index map has exactly one qualitative tool of its id, and no name occurs twice.
  The quantitative tools, one per SEC document of the conversation, are named by the
  document ids as well.
\<close>

theorem tool_names:
  assumes s3: "get_s3_fs w = None"
    and built: "build_doc_id_to_index_map w (documents conv) = Inr m"
  shows "\<exists>eng. get_chat_engine w conv = Inr eng
      \<and> map tool_name (vector_query_engine_tools eng) = map fst m
      \<and> distinct (map tool_name (vector_query_engine_tools eng))
      \<and> (\<forall>k\<in>set (map fst m).
            length (filter (\<lambda>t. tool_name t = k) (vector_query_engine_tools eng)) = 1)
      \<and> map tool_name (api_query_engine_tools eng)
          = map doc_id (filter (\<lambda>d. sec_document d \<noteq> None) (documents conv))"
proof -
  let ?id_to_doc = "dict_of (map (\<lambda>doc. (doc_id doc, doc)) (documents conv))"
  have "fst ` set m \<subseteq> fst ` set ?id_to_doc"
    using build_keys_subset[OF built] by (simp add: id_to_doc_keys)
  then obtain ts where ts: "append_vector_tools ?id_to_doc m [] = Inr ts"
    using append_vector_tools_total by blast
  let ?eng = "\<lparr>vector_query_engine_tools = ts,
               api_query_engine_tools = append_api_tools w (documents conv) [],
               chat_history = get_chat_history (messages conv)\<rparr>"
  have eng: "get_chat_engine w conv = Inr ?eng"
    by (simp add: get_chat_engine_def s3 built ts)
  have names: "map tool_name ts = map fst m"
    using append_vector_tools_names[OF ts] by simp
  have dist: "distinct (map tool_name ts)"
    using build_distinct[OF built] names by simp
  have once: "length (filter (\<lambda>t. tool_name t = k) ts) = 1" if "k \<in> set (map fst m)" for k
  proof -
    from that names have "k \<in> set (map tool_name ts)" by simp
    then obtain x where "x \<in> set ts" "tool_name x = k" by auto
    with distinct_count_one[OF dist, of x] show ?thesis by simp
  qed
  show ?thesis
    using eng names dist once api_tool_names[of w "documents conv"]
    by (intro exI[of _ ?eng]) simp
qed

theorem tool_names_witness:
  "\<exists>eng. get_chat_engine sample_collaborators
            \<lparr>documents =
               [\<lparr>doc_id = ''d1'', url = ''u1'', sec_document = None\<rparr>,
                \<lparr>doc_id = ''d2'', url = ''u2'',
                 sec_document = Some \<lparr>company_name = ''Acme Corp'', company_ticker = ''ACME'',
                                      doc_type_value = ''10-Q'', year = 2023,
                                      quarter = Some 1\<rparr>\<rparr>],
             messages = []\<rparr> = Inr eng
      \<and> map tool_name (vector_query_engine_tools eng) = [''d1'', ''d2'']
      \<and> distinct (map tool_name (vector_query_engine_tools eng))
      \<and> length (filter (\<lambda>t. tool_name t = ''d2'') (vector_query_engine_tools eng)) = 1
      \<and> map tool_name (api_query_engine_tools eng) = [''d2'']"
proof -
  let ?d1 = "\<lparr>doc_id = ''d1'', url = ''u1'', sec_document = None\<rparr>"
  let ?d2 = "\<lparr>doc_id = ''d2'', url = ''u2'',
              sec_document = Some \<lparr>company_name = ''Acme Corp'', company_ticker = ''ACME'',
                                   doc_type_value = ''10-Q'', year = 2023,
                                   quarter = Some 1\<rparr>\<rparr>"
  let ?conv = "\<lparr>documents = [?d1, ?d2], messages = []\<rparr>"
  let ?m = "[(''d1'', \<lparr>index_id = ''d1''\<rparr>), (''d2'', \<lparr>index_id = ''d2''\<rparr>)]"
  have s3: "get_s3_fs sample_collaborators = None"
    by (simp add: sample_collaborators_def)
  have built: "build_doc_id_to_index_map sample_collaborators (documents ?conv) = Inr ?m"
    by (simp add: build_doc_id_to_index_map_def load_doc_id_to_index_def
        sample_collaborators_def dict_of_def dict_set_def)
  from tool_names[OF s3 built] obtain eng where
    "get_chat_engine sample_collaborators ?conv = Inr eng"
    "map tool_name (vector_query_engine_tools eng) = map fst ?m"
    "distinct (map tool_name (vector_query_engine_tools eng))"
    "\<forall>k\<in>set (map fst ?m).
       length (filter (\<lambda>t. tool_name t = k) (vector_query_engine_tools eng)) = 1"
    "map tool_name (api_query_engine_tools eng)
       = map doc_id (filter (\<lambda>d. sec_document d \<noteq> None) (documents ?conv))"
    by blast
  then show ?thesis by (intro exI[of _ eng]) simp
qed

section \<open>Properties of the event translation\<close>













lemma digits_from_foreign:
  "\<exists>c\<in>set cs. digit_val c = None \<and> c \<noteq> CHR ''_'' \<Longrightarrow> digits_from acc cs = None"
proof (induction acc cs rule: digits_from.induct)
  case (1 acc)
  then show ?case by simp
next
  case (2 acc c)
  then show ?case by simp
next
  case (3 acc c d ds)
  show ?case
  proof (cases "c = CHR ''_''")
    case True
    show ?thesis
    proof (cases "digit_val d")
      case None
      with True show ?thesis by simp
    next
      case (Some v)
      with 3 True have "\<exists>c\<in>set ds. digit_val c = None \<and> c \<noteq> CHR ''_''" by auto
      with 3(1)[OF True Some] True Some show ?thesis by simp
    qed
  next
    case False
    show ?thesis
    proof (cases "digit_val c")
      case None
      with False show ?thesis by simp
    next
      case (Some v)
      with 3 have "\<exists>c\<in>set (d # ds). digit_val c = None \<and> c \<noteq> CHR ''_''" by auto
      with 3(2)[OF False Some] False Some show ?thesis by simp
    qed
  qed
qed

lemma parse_nat_foreign:
  "\<exists>c\<in>set cs. digit_val c = None \<and> c \<noteq> CHR ''_'' \<Longrightarrow> parse_nat cs = None"
proof (cases cs)
  case Nil
  then show ?thesis by (simp add: parse_nat_def)
next
  case (Cons x xs)
  assume a: "\<exists>c\<in>set cs. digit_val c = None \<and> c \<noteq> CHR ''_''"
  show ?thesis
  proof (cases "digit_val x")
    case None
    then show ?thesis by (simp add: parse_nat_def Cons)
  next
    case (Some v)
    with a Cons have "\<exists>c\<in>set xs. digit_val c = None \<and> c \<noteq> CHR ''_''" by auto
    then show ?thesis by (simp add: parse_nat_def Cons Some digits_from_foreign)
  qed
qed

lemma dropWhile_keeps: "c \<in> set s \<Longrightarrow> \<not> P c \<Longrightarrow> c \<in> set (dropWhile P s)"
  by (induction s) auto

lemma int_strip_keeps: "c \<in> set s \<Longrightarrow> \<not> is_int_space c \<Longrightarrow> c \<in> set (int_strip s)"
  by (simp add: int_strip_def dropWhile_keeps)

lemma int_of_str_foreign:
  assumes "c \<in> set s" and "digit_val c = None" and "c \<noteq> CHR ''+''" and "c \<noteq> CHR ''-''"
    and "c \<noteq> CHR ''_''" and "\<not> is_int_space c"
  shows "int_of_str s = Inl ValueError"
proof -
  have c: "c \<in> set (int_strip s)" using assms(1,6) by (rule int_strip_keeps)
  then obtain x xs where t: "int_strip s = x # xs" by (cases "int_strip s") auto
  have body: "parse_nat (if x = CHR ''-'' \<or> x = CHR ''+'' then xs else x # xs) = None"
  proof (rule parse_nat_foreign)
    from c t assms(3,4) have "c \<in> set (if x = CHR ''-'' \<or> x = CHR ''+'' then xs else x # xs)"
      by auto
    with assms(2,5)
    show "\<exists>c\<in>set (if x = CHR ''-'' \<or> x = CHR ''+'' then xs else x # xs).
            digit_val c = None \<and> c \<noteq> CHR ''_''"
      by blast
  qed
  then show ?thesis by (auto simp: int_of_str_def t)
qed


lemma separator_label: "int_of_str [CHR 0x1C, CHR ''4''] = Inl ValueError"
  by (rule int_of_str_foreign[of "CHR 0x1C"]) (simp_all add: digit_val_def is_int_space_def)










lemma metadata_shapes:
  assumes "get_metadata_from_event k t (Some p) s = Inr m"
  shows "m = []
       \<or> (\<exists>r nodes reply cs. map_of p RESPONSE = Some (Object r) \<and> source_nodes r = Some nodes
             \<and> response r = Some reply \<and> collect_citations nodes [] = Inr cs \<and> cs \<noteq> []
             \<and> m = [(''sub_questions'',
                     QuestionAnswerList [\<lparr>qa_question = placeholder_question,
                                          qa_answer = py_str reply, qa_citations = cs\<rparr>])])
       \<or> (\<exists>q. map_of p RESPONSE = None \<and> t = SUB_QUESTION \<and> map_of p SUB_QUESTION_KEY = Some q
             \<and> m = [(k, QuestionAnswerPairDict q)])
       \<or> (\<exists>out. map_of p RESPONSE = None \<and> t = FUNCTION_CALL
             \<and> map_of p FUNCTION_OUTPUT = Some (Plain (PyStr out))
             \<and> m = [(''sub_questions'',
                     QuestionAnswerList [\<lparr>qa_question = placeholder_question,
                                          qa_answer = out, qa_citations = []\<rparr>])])"
  using assms unfolding get_metadata_from_event_def
  by (auto split: option.splits payload_value.splits sum.splits if_splits pyval.splits)

text \<open>
  Claim C6. \<open>get_metadata_from_event\<close> puts at most one entry into the metadata map.
  When the payload has a response object with source nodes and a response text, and
  the nodes yield at least one citation, the result is the synthesized citation record,
  whatever the event type and whatever else the payload holds: the sub-question and
  function-call branches are not taken.
\<close>

theorem event_classification:
  "(get_metadata_from_event k t payload s = Inr m \<longrightarrow> length m \<le> 1)
   \<and> (map_of p RESPONSE = Some (Object r) \<and> source_nodes r = Some nodes \<and> response r = Some reply
        \<and> collect_citations nodes [] = Inr cs \<and> cs \<noteq> []
       \<longrightarrow> get_metadata_from_event k t' (Some p) s'
             = Inr [(''sub_questions'',
                     QuestionAnswerList [\<lparr>qa_question = placeholder_question,
                                          qa_answer = py_str reply, qa_citations = cs\<rparr>])])"
proof (intro conjI impI)
  assume a: "get_metadata_from_event k t payload s = Inr m"
  then obtain p' where "payload = Some p'"
    by (cases payload) (simp_all add: get_metadata_from_event_def)
  with a metadata_shapes[of k t p' s m] show "length m \<le> 1" by auto
next
  assume "map_of p RESPONSE = Some (Object r) \<and> source_nodes r = Some nodes \<and> response r = Some reply
        \<and> collect_citations nodes [] = Inr cs \<and> cs \<noteq> []"
  then show "get_metadata_from_event k t' (Some p) s'
             = Inr [(''sub_questions'',
                     QuestionAnswerList [\<lparr>qa_question = placeholder_question,
                                          qa_answer = py_str reply, qa_citations = cs\<rparr>])]"
    by (simp add: get_metadata_from_event_def)
qed

theorem event_classification_witness:
  "get_metadata_from_event ''sub_question'' SUB_QUESTION
     (Some [(RESPONSE,
             Object \<lparr>source_nodes =
                       Some [\<lparr>node = Some \<lparr>node_metadata =
                                              Some [(''db_document_id'', PyStr ''d1''),
                                                    (''page_label'', PyInt 7)],
                                            node_text = Some ''revenue grew''\<rparr>\<rparr>],
                     response = Some (PyStr ''It grew.'')\<rparr>),
            (SUB_QUESTION_KEY,
             AnswerPair \<lparr>pair_sub_question = ''How did revenue change?'',
                         pair_answer = None, pair_sources = []\<rparr>),
            (FUNCTION_OUTPUT, Plain (PyStr ''unused''))]) False
   = Inr [(''sub_questions'',
           QuestionAnswerList
             [\<lparr>qa_question = placeholder_question, qa_answer = ''It grew.'',
               qa_citations = [\<lparr>document_id = PyStr ''d1'', page_number = 7,
                                 citation_text = ''revenue grew''\<rparr>]\<rparr>])]
   \<and> length [(''sub_questions'',
           QuestionAnswerList
             [\<lparr>qa_question = placeholder_question, qa_answer = ''It grew.'',
               qa_citations = [\<lparr>document_id = PyStr ''d1'', page_number = 7,
                                 citation_text = ''revenue grew''\<rparr>]\<rparr>])] \<le> Suc 0"
proof -
  let ?nodes = "[\<lparr>node = Some \<lparr>node_metadata = Some [(''db_document_id'', PyStr ''d1''),
                                                  (''page_label'', PyInt 7)],
                             node_text = Some ''revenue grew''\<rparr>\<rparr>]"
  let ?r = "\<lparr>source_nodes = Some ?nodes, response = Some (PyStr ''It grew.'')\<rparr>"
  let ?p = "[(RESPONSE, Object ?r),
            (SUB_QUESTION_KEY,
             AnswerPair \<lparr>pair_sub_question = ''How did revenue change?'',
                         pair_answer = None, pair_sources = []\<rparr>),
            (FUNCTION_OUTPUT, Plain (PyStr ''unused''))]"
  let ?cs = "[\<lparr>document_id = PyStr ''d1'', page_number = 7, citation_text = ''revenue grew''\<rparr>]"
  have cs: "collect_citations ?nodes [] = Inr ?cs" by simp
  have first: "get_metadata_from_event ''sub_question'' SUB_QUESTION (Some ?p) False
      = Inr [(''sub_questions'',
              QuestionAnswerList [\<lparr>qa_question = placeholder_question,
                                   qa_answer = py_str (PyStr ''It grew.''), qa_citations = ?cs\<rparr>])]"
    by (rule event_classification[where r = ?r and nodes = ?nodes, THEN conjunct2, rule_format])
       (simp add: cs)
  moreover from this have "length [(''sub_questions'',
              QuestionAnswerList [\<lparr>qa_question = placeholder_question,
                                   qa_answer = py_str (PyStr ''It grew.''), qa_citations = ?cs\<rparr>])] \<le> 1"
    by (rule event_classification[THEN conjunct1, rule_format])
  ultimately show ?thesis by simp
qed

text \<open>
  Claim C10 fails on the code. For an event delivered without a payload (\<open>payload = None\<close>,
  the default of \<open>on_event_start\<close> and \<open>on_event_end\<close>), the membership test
  \<open>EventPayload.RESPONSE in payload\<close> raises \<open>TypeError\<close>: the task ends with that
  exception and nothing is sent on the channel.
\<close>

theorem no_payload_raises:
  "get_metadata_from_event k t None s = Inl TypeError
   \<and> on_event_start k chan t None eid = (Some TypeError, chan)
   \<and> on_event_end k chan t None eid = (Some TypeError, chan)"
  by (simp add: get_metadata_from_event_def async_on_event_def on_event_start_def
      on_event_end_def)

lemma async_on_event_sent:
  assumes "\<not> closed chan"
    and "async_on_event k chan t payload eid s = (None, chan')"
  shows "\<exists>p m. payload = Some p \<and> get_metadata_from_event k t (Some p) s = Inr m
           \<and> chan' = chan\<lparr>sent := sent chan @
                 [SubProcess \<lparr>source = EventSource t, has_ended = (\<not> s), event_id = eid,
                              metadata_map = (if m = [] then None else Some m)\<rparr>]\<rparr>"
proof (cases payload)
  case None
  then have "async_on_event k chan t payload eid s = (Some TypeError, chan)"
    by (simp add: async_on_event_def get_metadata_from_event_def)
  with assms(2) show ?thesis by simp
next
  case (Some p)
  show ?thesis
  proof (cases "get_metadata_from_event k t (Some p) s")
    case (Inl e)
    then have "async_on_event k chan t payload eid s = (Some e, chan)"
      by (simp add: async_on_event_def Some)
    with assms(2) show ?thesis by simp
  next
    case (Inr m)
    then have "async_on_event k chan t payload eid s
        = (None, chan\<lparr>sent := sent chan @
                 [SubProcess \<lparr>source = EventSource t, has_ended = (\<not> s), event_id = eid,
                              metadata_map = (if m = [] then None else Some m)\<rparr>]\<rparr>)"
      using assms(1) by (simp add: async_on_event_def Some send_def)
    with assms(2) Some Inr show ?thesis by simp
  qed
qed

lemma metadata_ignores_start_flag:
  "get_metadata_from_event k t payload s = get_metadata_from_event k t payload s'"
  by (simp add: get_metadata_from_event_def)

lemma metadata_recognized:
  assumes "get_metadata_from_event k t (Some p) s = Inr m" and "m \<noteq> []"
  shows "(\<exists>ro nodes reply cs. map_of p RESPONSE = Some (Object ro) \<and> source_nodes ro = Some nodes
                \<and> response ro = Some reply \<and> collect_citations nodes [] = Inr cs \<and> cs \<noteq> [])
          \<or> (map_of p RESPONSE = None \<and> t = SUB_QUESTION \<and> map_of p SUB_QUESTION_KEY \<noteq> None)
          \<or> (map_of p RESPONSE = None \<and> t = FUNCTION_CALL
                \<and> (\<exists>out. map_of p FUNCTION_OUTPUT = Some (Plain (PyStr out))))"
  using metadata_shapes[OF assms(1)] assms(2)
  by (elim disjE exE conjE) simp_all

text \<open>
  Claim C5, amended. On an open channel, the record sent for a start event carries
  the metadata map that the record for an end event with the same event type and
  payload carries (the start flag is not read when the metadata is computed); a record
  carries a metadata map only when the payload has a response object whose source nodes
  yield a citation, or the event is a sub-question event with a sub-question entry, or
  the event is a function-call event whose function output is a string.
\<close>

theorem start_and_end_metadata:
  assumes "\<not> closed chan"
    and "on_event_start k chan t payload eid = (None, chan')"
  shows "\<exists>r p. payload = Some p
      \<and> sent chan' = sent chan @ [SubProcess r] \<and> has_ended r = False
      \<and> on_event_end k chan t payload eid
          = (None, chan\<lparr>sent := sent chan @ [SubProcess (r\<lparr>has_ended := True\<rparr>)]\<rparr>)
      \<and> (metadata_map r \<noteq> None \<longrightarrow>
            (\<exists>ro nodes reply cs. map_of p RESPONSE = Some (Object ro) \<and> source_nodes ro = Some nodes
                \<and> response ro = Some reply \<and> collect_citations nodes [] = Inr cs \<and> cs \<noteq> [])
          \<or> (map_of p RESPONSE = None \<and> t = SUB_QUESTION \<and> map_of p SUB_QUESTION_KEY \<noteq> None)
          \<or> (map_of p RESPONSE = None \<and> t = FUNCTION_CALL
                \<and> (\<exists>out. map_of p FUNCTION_OUTPUT = Some (Plain (PyStr out)))))"
proof -
  from assms(2) have "async_on_event k chan t payload eid True = (None, chan')"
    by (simp add: on_event_start_def)
  from async_on_event_sent[OF assms(1) this] obtain p m where
    p: "payload = Some p" and m: "get_metadata_from_event k t (Some p) True = Inr m"
    and chan': "chan' = chan\<lparr>sent := sent chan @
                 [SubProcess \<lparr>source = EventSource t, has_ended = (\<not> True), event_id = eid,
                              metadata_map = (if m = [] then None else Some m)\<rparr>]\<rparr>"
    by blast
  let ?r = "\<lparr>source = EventSource t, has_ended = False, event_id = eid,
             metadata_map = (if m = [] then None else Some m)\<rparr>"
  have m': "get_metadata_from_event k t (Some p) False = Inr m"
    using m by (simp only: metadata_ignores_start_flag[of k t "Some p" False True])
  show ?thesis
  proof (intro exI[of _ ?r] exI[of _ p] conjI)
    show "payload = Some p" by (rule p)
    show "sent chan' = sent chan @ [SubProcess ?r]" by (simp add: chan')
    show "has_ended ?r = False" by simp
    show "on_event_end k chan t payload eid
          = (None, chan\<lparr>sent := sent chan @ [SubProcess (?r\<lparr>has_ended := True\<rparr>)]\<rparr>)"
      using assms(1) by (simp add: on_event_end_def async_on_event_def p m' send_def)
    show "metadata_map ?r \<noteq> None \<longrightarrow>
            (\<exists>ro nodes reply cs. map_of p RESPONSE = Some (Object ro) \<and> source_nodes ro = Some nodes
                \<and> response ro = Some reply \<and> collect_citations nodes [] = Inr cs \<and> cs \<noteq> [])
          \<or> (map_of p RESPONSE = None \<and> t = SUB_QUESTION \<and> map_of p SUB_QUESTION_KEY \<noteq> None)
          \<or> (map_of p RESPONSE = None \<and> t = FUNCTION_CALL
                \<and> (\<exists>out. map_of p FUNCTION_OUTPUT = Some (Plain (PyStr out))))"
    proof
      assume "metadata_map ?r \<noteq> None"
      then have "m \<noteq> []" by (simp split: if_splits)
      with m show "(\<exists>ro nodes reply cs. map_of p RESPONSE = Some (Object ro) \<and> source_nodes ro = Some nodes
                \<and> response ro = Some reply \<and> collect_citations nodes [] = Inr cs \<and> cs \<noteq> [])
          \<or> (map_of p RESPONSE = None \<and> t = SUB_QUESTION \<and> map_of p SUB_QUESTION_KEY \<noteq> None)
          \<or> (map_of p RESPONSE = None \<and> t = FUNCTION_CALL
                \<and> (\<exists>out. map_of p FUNCTION_OUTPUT = Some (Plain (PyStr out))))"
        by (rule metadata_recognized)
    qed
  qed
qed

theorem start_and_end_metadata_witness:
  "on_event_end ''sub_question'' \<lparr>closed = False, sent = []\<rparr> FUNCTION_CALL
     (Some [(FUNCTION_OUTPUT, Plain (PyStr ''42''))]) ''e2''
   = (None,
      \<lparr>closed = False,
       sent = [SubProcess
                 \<lparr>source = EventSource FUNCTION_CALL, has_ended = True, event_id = ''e2'',
                  metadata_map =
                    Some [(''sub_questions'',
                           QuestionAnswerList
                             [\<lparr>qa_question = placeholder_question, qa_answer = ''42'',
                               qa_citations = []\<rparr>])]\<rparr>]\<rparr>)"
proof -
  let ?chan = "\<lparr>closed = False, sent = []\<rparr>"
  let ?payload = "Some [(FUNCTION_OUTPUT, Plain (PyStr ''42''))]"
  let ?r = "\<lparr>source = EventSource FUNCTION_CALL, has_ended = False, event_id = ''e2'',
             metadata_map =
               Some [(''sub_questions'',
                      QuestionAnswerList
                        [\<lparr>qa_question = placeholder_question, qa_answer = ''42'',
                          qa_citations = []\<rparr>])]\<rparr>"
  have opened: "\<not> closed ?chan" by simp
  have started: "on_event_start ''sub_question'' ?chan FUNCTION_CALL ?payload ''e2''
      = (None, \<lparr>closed = False, sent = [SubProcess ?r]\<rparr>)"
    by (simp add: on_event_start_def async_on_event_def get_metadata_from_event_def send_def)
  from start_and_end_metadata[OF opened started] obtain r where
    r: "sent \<lparr>closed = False, sent = [SubProcess ?r]\<rparr> = sent ?chan @ [SubProcess r]"
    and e: "on_event_end ''sub_question'' ?chan FUNCTION_CALL ?payload ''e2''
          = (None, ?chan\<lparr>sent := sent ?chan @ [SubProcess (r\<lparr>has_ended := True\<rparr>)]\<rparr>)"
    by (elim exE conjE)
  from r have "r = ?r" by simp
  with e show ?thesis by simp
qed

text \<open>
  A start event of a sub-question, delivered with its sub-question entry: the record sent
  has \<open>has_ended = False\<close> and carries a metadata map.
\<close>

theorem start_event_metadata_counterexample:
  "on_event_start ''sub_question'' \<lparr>closed = False, sent = []\<rparr> SUB_QUESTION
     (Some [(SUB_QUESTION_KEY,
             AnswerPair \<lparr>pair_sub_question = ''How did revenue change?'',
                         pair_answer = None, pair_sources = []\<rparr>)]) ''e1''
   = (None,
      \<lparr>closed = False,
       sent = [SubProcess
                 \<lparr>source = EventSource SUB_QUESTION, has_ended = False, event_id = ''e1'',
                  metadata_map =
                    Some [(''sub_question'',
                           QuestionAnswerPairDict
                             (AnswerPair \<lparr>pair_sub_question = ''How did revenue change?'',
                                         pair_answer = None, pair_sources = []\<rparr>))]\<rparr>]\<rparr>)"
  by (simp add: on_event_start_def async_on_event_def get_metadata_from_event_def send_def)

section \<open>Properties of the streaming dispatcher\<close>

lemma prefixes_head: "prefixes xs = [] # tl (prefixes xs)"
  by (cases xs) simp_all

lemma tl_prefixes_Cons: "tl (prefixes (x # xs)) = [x] # map ((#) x) (tl (prefixes xs))"
proof -
  have "tl (prefixes (x # xs)) = map ((#) x) (prefixes xs)" by simp
  also have "\<dots> = map ((#) x) ([] # tl (prefixes xs))" using prefixes_head[of xs] by simp
  finally show ?thesis by simp
qed

lemma consume_tokens:
  "\<not> closed chan \<Longrightarrow>
     consume_stream (map Token toks) acc chan
       = (Exhausted (acc @ concat toks),
          chan\<lparr>sent := sent chan
                  @ map (\<lambda>p. StreamedMessage (acc @ concat p)) (tl (prefixes toks))\<rparr>)"
proof (induction toks arbitrary: acc chan)
  case Nil
  then show ?case by simp
next
  case (Cons tok toks)
  let ?chan = "chan\<lparr>sent := sent chan @ [StreamedMessage (acc @ tok)]\<rparr>"
  have open': "\<not> closed ?chan" using Cons.prems by simp
  have "consume_stream (map Token (tok # toks)) acc chan
      = consume_stream (map Token toks) (acc @ tok) ?chan"
    using Cons.prems by (simp add: send_def Let_def)
  also have "\<dots> = (Exhausted ((acc @ tok) @ concat toks),
          ?chan\<lparr>sent := sent ?chan
                  @ map (\<lambda>p. StreamedMessage ((acc @ tok) @ concat p)) (tl (prefixes toks))\<rparr>)"
    by (rule Cons.IH[OF open'])
  finally show ?case
    by (simp only: tl_prefixes_Cons) (simp add: comp_def)
qed

lemma snapshots_blank:
  assumes "py_strip (concat toks) = []" and "p \<in> set (prefixes toks)"
  shows "py_strip (concat p) = []"
proof -
  from assms(2) have "prefix p toks" by simp
  then obtain q where "toks = p @ q" by (auto simp: prefix_def)
  then have "set (concat p) \<subseteq> set (concat toks)" by auto
  with assms(1) show ?thesis by (auto simp: py_strip_empty_iff)
qed

lemma fallback_not_blank: "py_strip fallback_message \<noteq> []"
  by (simp add: py_strip_empty_iff fallback_message_def is_space_def)

text \<open>
  Claim C8. When the engine is built and the agent's stream is a sequence of text
  fragments during which the channel is not closed, \<open>handle_chat_message\<close> returns
  without an exception, having sent the constructed-query-engine record, one snapshot
  of the accumulated text per fragment, and then the fallback message exactly when
  the accumulated text is empty or white space only; in that case the fallback text
  occurs exactly once among the items sent. When the accumulated text is not blank,
  nothing follows the snapshots.
\<close>

theorem fallback_message_once:
  assumes "get_chat_engine w conv = Inr engine"
    and "astream_chat w (templated_message user_content) = Inr (map Token toks)"
  shows "handle_chat_message w conv user_content \<lparr>closed = False, sent = []\<rparr>
      = (None,
         \<lparr>closed = True,
          sent = SubProcess \<lparr>source = CONSTRUCTED_QUERY_ENGINE, has_ended = True,
                             event_id = uuid4 w, metadata_map = None\<rparr>
                 # map (\<lambda>p. StreamedMessage (concat p)) (tl (prefixes toks))
                 @ (if py_strip (concat toks) = [] then [StreamedMessage fallback_message]
                    else [])\<rparr>)
    \<and> (py_strip (concat toks) = [] \<longrightarrow>
          length (filter (\<lambda>item. item = StreamedMessage fallback_message)
                    (sent (snd (handle_chat_message w conv user_content
                                  \<lparr>closed = False, sent = []\<rparr>)))) = 1)"
proof -
  let ?marker = "SubProcess \<lparr>source = CONSTRUCTED_QUERY_ENGINE, has_ended = True,
                             event_id = uuid4 w, metadata_map = None\<rparr>"
  let ?snaps = "map (\<lambda>p. StreamedMessage (concat p)) (tl (prefixes toks))"
  let ?chan1 = "\<lparr>closed = False, sent = [?marker]\<rparr>"
  have loop: "consume_stream (map Token toks) [] ?chan1
      = (Exhausted (concat toks), \<lparr>closed = False, sent = ?marker # ?snaps\<rparr>)"
    using consume_tokens[of ?chan1 toks "[]"] by simp
  have result: "handle_chat_message w conv user_content \<lparr>closed = False, sent = []\<rparr>
      = (None,
         \<lparr>closed = True,
          sent = ?marker # ?snaps
                 @ (if py_strip (concat toks) = [] then [StreamedMessage fallback_message]
                    else [])\<rparr>)"
    by (simp add: handle_chat_message_def chat_message_body_def assms send_def loop)
  have count: "length (filter (\<lambda>item. item = StreamedMessage fallback_message)
                 (?marker # ?snaps @ [StreamedMessage fallback_message])) = 1"
    if blank: "py_strip (concat toks) = []"
  proof -
    have "\<forall>p\<in>set (tl (prefixes toks)). concat p \<noteq> fallback_message"
    proof
      fix p assume "p \<in> set (tl (prefixes toks))"
      then have "p \<in> set (prefixes toks)" by (metis list.set_sel(2) prefixes_not_Nil)
      from snapshots_blank[OF blank this] fallback_not_blank
      show "concat p \<noteq> fallback_message" by auto
    qed
    then have "filter (\<lambda>item. item = StreamedMessage fallback_message) ?snaps = []"
      by (simp add: filter_empty_conv)
    then show ?thesis by simp
  qed
  show ?thesis
  proof (intro conjI impI)
    show "handle_chat_message w conv user_content \<lparr>closed = False, sent = []\<rparr>
      = (None,
         \<lparr>closed = True,
          sent = ?marker # ?snaps
                 @ (if py_strip (concat toks) = [] then [StreamedMessage fallback_message]
                    else [])\<rparr>)"
      by (rule result)
  next
    assume blank: "py_strip (concat toks) = []"
    show "length (filter (\<lambda>item. item = StreamedMessage fallback_message)
                    (sent (snd (handle_chat_message w conv user_content
                                  \<lparr>closed = False, sent = []\<rparr>)))) = 1"
      using count[OF blank] by (simp add: result blank)
  qed
qed

lemma sample_engine:
  "get_chat_engine (sample_collaborators\<lparr>astream_chat := f\<rparr>) \<lparr>documents = [], messages = []\<rparr>
     = Inr \<lparr>vector_query_engine_tools = [], api_query_engine_tools = [], chat_history = []\<rparr>"
  by (simp add: get_chat_engine_def build_doc_id_to_index_map_def load_doc_id_to_index_def
      sample_collaborators_def dict_of_def get_chat_history_def)

theorem fallback_message_once_witness:
  "handle_chat_message
     (sample_collaborators\<lparr>astream_chat := \<lambda>prompt. Inr (map Token ['' '', [CHR 0x0A]])\<rparr>)
     \<lparr>documents = [], messages = []\<rparr> ''  '' \<lparr>closed = False, sent = []\<rparr>
   = (None,
      \<lparr>closed = True,
       sent = [SubProcess \<lparr>source = CONSTRUCTED_QUERY_ENGINE, has_ended = True,
                           event_id = ''00000000-0000-4000-8000-000000000000'',
                           metadata_map = None\<rparr>,
               StreamedMessage '' '',
               StreamedMessage ('' '' @ [CHR 0x0A]),
               StreamedMessage fallback_message]\<rparr>)
   \<and> handle_chat_message
     (sample_collaborators\<lparr>astream_chat := \<lambda>prompt. Inr (map Token [''No'', '' data.''])\<rparr>)
     \<lparr>documents = [], messages = []\<rparr> ''Any data?'' \<lparr>closed = False, sent = []\<rparr>
   = (None,
      \<lparr>closed = True,
       sent = [SubProcess \<lparr>source = CONSTRUCTED_QUERY_ENGINE, has_ended = True,
                           event_id = ''00000000-0000-4000-8000-000000000000'',
                           metadata_map = None\<rparr>,
               StreamedMessage ''No'',
               StreamedMessage ''No data.'']\<rparr>)"
proof -
  let ?blank = "sample_collaborators\<lparr>astream_chat := \<lambda>prompt. Inr (map Token ['' '', [CHR 0x0A]])\<rparr>"
  let ?full = "sample_collaborators\<lparr>astream_chat := \<lambda>prompt. Inr (map Token [''No'', '' data.''])\<rparr>"
  have b: "astream_chat ?blank (templated_message ''  '') = Inr (map Token ['' '', [CHR 0x0A]])"
    by simp
  have f: "astream_chat ?full (templated_message ''Any data?'') = Inr (map Token [''No'', '' data.''])"
    by simp
  have u: "uuid4 ?blank = ''00000000-0000-4000-8000-000000000000''"
    "uuid4 ?full = ''00000000-0000-4000-8000-000000000000''"
    by (simp_all add: sample_collaborators_def)
  have s1: "py_strip (concat ['' '', [CHR 0x0A]]) = []"
    by (simp add: py_strip_def is_space_def)
  have s2: "py_strip (concat [''No'', '' data.'']) \<noteq> []"
    by (simp add: py_strip_def is_space_def)
  show ?thesis
    using fallback_message_once[OF sample_engine b, THEN conjunct1]
      fallback_message_once[OF sample_engine f, THEN conjunct1]
    by (simp only: u s1 s2) simp
qed

text \<open>
  Claim C2 fails on the code. The channel is closed while the loop waits for the
  stream, and the stream then ends without a further fragment: the loop body, which
  holds the only test of \<open>_closed\<close>, does not run again, the accumulated text is blank,
  and the fallback message is sent on the closed channel. The \<open>ClosedResourceError\<close>
  of that send leaves \<open>handle_chat_message\<close>.
\<close>

theorem closed_before_fallback_raises:
  "handle_chat_message
     (sample_collaborators\<lparr>astream_chat := \<lambda>prompt. Inr [ConsumerCloses]\<rparr>)
     \<lparr>documents = [], messages = []\<rparr> ''hello'' \<lparr>closed = False, sent = []\<rparr>
   = (Some ClosedResourceError,
      \<lparr>closed = True,
       sent = [SubProcess \<lparr>source = CONSTRUCTED_QUERY_ENGINE, has_ended = True,
                           event_id = ''00000000-0000-4000-8000-000000000000'',
                           metadata_map = None\<rparr>]\<rparr>)"
proof -
  have u: "uuid4 (sample_collaborators\<lparr>astream_chat := \<lambda>prompt. Inr [ConsumerCloses]\<rparr>)
      = ''00000000-0000-4000-8000-000000000000''"
    by (simp add: sample_collaborators_def)
  show ?thesis
    by (simp add: handle_chat_message_def chat_message_body_def sample_engine send_def u
        py_strip_def)
qed

end
